theory Spec2Isabelle
  imports Complex_Main
begin

section \<open>Python values shared by the modules\<close>

text \<open>
  An exception is a value carrying the text that \<^verbatim>\<open>str(e)\<close> gives. \<open>Exception\<close>
  stands for whatever an external collaborator (the text generator) raises.
\<close>

datatype py_exception =
    KeyError string
  | ValueError string
  | TypeError string
  | AttributeError string
  | Exception string

fun str_exc :: "py_exception \<Rightarrow> string" where
  "str_exc (KeyError k) = [CHR 0x27] @ k @ [CHR 0x27]"
| "str_exc (ValueError m) = m"
| "str_exc (TypeError m) = m"
| "str_exc (AttributeError m) = m"
| "str_exc (Exception m) = m"

definition bind_exc :: "py_exception + 'a \<Rightarrow> ('a \<Rightarrow> py_exception + 'b) \<Rightarrow> py_exception + 'b" where
  "bind_exc m k = (case m of Inl e \<Rightarrow> Inl e | Inr x \<Rightarrow> k x)"

text \<open>A \<^verbatim>\<open>for\<close> loop whose body may raise: the first exception ends the loop.\<close>

fun for_each :: "('a \<Rightarrow> 's \<Rightarrow> py_exception + 's) \<Rightarrow> 'a list \<Rightarrow> 's \<Rightarrow> py_exception + 's" where
  "for_each body [] s = Inr s"
| "for_each body (x # xs) s =
     (case body x s of Inl e \<Rightarrow> Inl e | Inr s' \<Rightarrow> for_each body xs s')"

text \<open>
  Strings are lists of characters; the model covers ASCII text, on which
  \<^verbatim>\<open>str.lower\<close> changes the letters A to Z only.
\<close>

definition lower_char :: "char \<Rightarrow> char" where
  "lower_char c =
     (case map_of (zip ''ABCDEFGHIJKLMNOPQRSTUVWXYZ'' ''abcdefghijklmnopqrstuvwxyz'') c of
        None \<Rightarrow> c
      | Some l \<Rightarrow> l)"

definition lower :: "string \<Rightarrow> string" where
  "lower s = map lower_char s"

text \<open>\<^verbatim>\<open>sub in s\<close> for strings.\<close>

fun contains :: "string \<Rightarrow> string \<Rightarrow> bool" where
  "contains sub [] = (sub = [])"
| "contains sub (c # cs) = (take (length sub) (c # cs) = sub \<or> contains sub cs)"

text \<open>\<^verbatim>\<open>s.replace('Z', '+00:00')\<close>\<close>

definition replace_Z :: "string \<Rightarrow> string" where
  "replace_Z s = concat (map (\<lambda>c. if c = CHR ''Z'' then ''+00:00'' else [c]) s)"

text \<open>\<^verbatim>\<open>d[k]\<close> on a dictionary with string keys, kept as an association list.\<close>

definition getitem :: "(string \<times> 'v) list \<Rightarrow> string \<Rightarrow> py_exception + 'v" where
  "getitem d k = (case map_of d k of None \<Rightarrow> Inl (KeyError k) | Some v \<Rightarrow> Inr v)"

subsection \<open>\<^verbatim>\<open>datetime\<close>\<close>

text \<open>
  A \<^verbatim>\<open>datetime\<close> holds the fields of a wall-clock reading, each in its calendar
  range, and an optional UTC offset (here in microseconds): \<open>None\<close> is a naive value,
  \<open>Some\<close> an aware one. Python orders two naive values by their fields, which is the
  order of their wall-clock readings, and two aware values by their UTC instants; it
  raises \<^verbatim>\<open>TypeError\<close> when asked to order a naive value against an aware one.
\<close>

record datetime =
  year :: nat
  month :: nat
  day :: nat
  hour :: nat
  minute :: nat
  second :: nat
  microsecond :: nat
  utcoffset :: "int option"

definition is_leap :: "nat \<Rightarrow> bool" where
  "is_leap y = (y mod 4 = 0 \<and> (y mod 100 \<noteq> 0 \<or> y mod 400 = 0))"

definition days_before_year :: "nat \<Rightarrow> int" where
  "days_before_year y =
     (let p = int y - 1 in p * 365 + p div 4 - p div 100 + p div 400)"

definition days_before_month :: "nat \<Rightarrow> nat \<Rightarrow> int" where
  "days_before_month y m =
     int (sum_list (take (m - 1) [31, 28, 31, 30, 31, 30, 31, 31, 30, 31, 30, 31]))
       + (if 2 < m \<and> is_leap y then 1 else 0)"

definition ymd2ord :: "nat \<Rightarrow> nat \<Rightarrow> nat \<Rightarrow> int" where
  "ymd2ord y m d = days_before_year y + days_before_month y m + int d"

text \<open>The wall-clock reading in microseconds, and the point on the time line it names.\<close>

definition wall_clock :: "datetime \<Rightarrow> int" where
  "wall_clock d =
     (((ymd2ord (year d) (month d) (day d) * 24 + int (hour d)) * 60 + int (minute d)) * 60
        + int (second d)) * 1000000 + int (microsecond d)"

definition instant :: "datetime \<Rightarrow> int" where
  "instant d = wall_clock d - (case utcoffset d of None \<Rightarrow> 0 | Some off \<Rightarrow> off)"

definition aware :: "datetime \<Rightarrow> bool" where
  "aware d = (utcoffset d \<noteq> None)"

text \<open>\<^verbatim>\<open>a < b\<close> on two \<^verbatim>\<open>datetime\<close> values.\<close>

definition dt_less :: "datetime \<Rightarrow> datetime \<Rightarrow> py_exception + bool" where
  "dt_less a b =
     (if aware a = aware b then Inr (instant a < instant b)
      else Inl (TypeError ''can't compare offset-naive and offset-aware datetimes''))"

section \<open>Conflict detection and sleep estimate: \<^verbatim>\<open>gemini_calendar_chat.py\<close>\<close>

text \<open>
  The events these functions receive are dictionaries with the keys \<^verbatim>\<open>title\<close>,
  \<^verbatim>\<open>start\<close> and \<^verbatim>\<open>end\<close>. \<^verbatim>\<open>datetime.fromisoformat\<close> belongs to the Python library
  and is a parameter of the model: it gives a \<^verbatim>\<open>datetime\<close> or raises.
\<close>

type_synonym event_dict = "(string \<times> string) list"

type_synonym iso_parser = "string \<Rightarrow> py_exception + datetime"

text \<open>\<^verbatim>\<open>datetime.fromisoformat(event[key].replace('Z', '+00:00'))\<close>\<close>

definition event_time :: "iso_parser \<Rightarrow> event_dict \<Rightarrow> string \<Rightarrow> py_exception + datetime" where
  "event_time fromisoformat event key =
     bind_exc (getitem event key) (\<lambda>s. fromisoformat (replace_Z s))"

definition events_overlap :: "iso_parser \<Rightarrow> event_dict \<Rightarrow> event_dict \<Rightarrow> py_exception + bool" where
  "events_overlap fromisoformat event1 event2 =
     bind_exc (event_time fromisoformat event1 ''start'') (\<lambda>start1.
     bind_exc (event_time fromisoformat event1 ''end'') (\<lambda>end1.
     bind_exc (event_time fromisoformat event2 ''start'') (\<lambda>start2.
     bind_exc (event_time fromisoformat event2 ''end'') (\<lambda>end2.
     bind_exc (dt_less start1 end2) (\<lambda>before.
       if before then dt_less start2 end1 else Inr False)))))"

text \<open>
  One entry of the \<^verbatim>\<open>conflicts\<close> list. The assistant module builds the same
  dictionary without the \<^verbatim>\<open>severity\<close> key (\<open>None\<close> here).
\<close>

record conflict =
  event1 :: event_dict
  event2 :: event_dict
  conflict_type :: string
  severity :: "string option"

text \<open>
  What a calendar function returns: \<^verbatim>\<open>{'error': text}\<close>, or the dictionary of a
  success. The \<^verbatim>\<open>message\<close> entries, wording for the user, are left out.
\<close>

datatype conflicts_result =
    ConflictsError string
  | ConflictsFound "conflict list" nat

definition conflicts_loop :: "iso_parser \<Rightarrow> string option \<Rightarrow> event_dict list \<Rightarrow> py_exception + conflict list" where
  "conflicts_loop fromisoformat sev events =
     for_each (\<lambda>(i, event1) conflicts.
        for_each (\<lambda>(j, event2) conflicts.
           bind_exc (events_overlap fromisoformat event1 event2) (\<lambda>overlap.
             if overlap
             then Inr (conflicts @ [\<lparr>event1 = event1, event2 = event2,
                                     conflict_type = ''time_overlap'', severity = sev\<rparr>])
             else Inr conflicts))
          (enumerate (i + 1) (drop (i + 1) events)) conflicts)
       (enumerate 0 events) []"

definition analyze_schedule_conflicts :: "iso_parser \<Rightarrow> event_dict list \<Rightarrow> conflicts_result" where
  "analyze_schedule_conflicts fromisoformat events =
     (case conflicts_loop fromisoformat (Some ''high'') events of
        Inl e \<Rightarrow> ConflictsError (''Failed to analyze conflicts: '' @ str_exc e)
      | Inr conflicts \<Rightarrow> ConflictsFound conflicts (length conflicts))"

text \<open>The copy in \<^verbatim>\<open>gemini_calendar_assistant.py\<close>.\<close>

definition asst_analyze_schedule_conflicts :: "iso_parser \<Rightarrow> event_dict list \<Rightarrow> conflicts_result" where
  "asst_analyze_schedule_conflicts fromisoformat events =
     (case conflicts_loop fromisoformat None events of
        Inl e \<Rightarrow> ConflictsError (''Failed to analyze conflicts: '' @ str_exc e)
      | Inr conflicts \<Rightarrow> ConflictsFound conflicts (length conflicts))"

subsection \<open>Sleep estimate\<close>

text \<open>\<^verbatim>\<open>datetime.fromisoformat(event['start'].replace('Z', '+00:00')).hour\<close>\<close>

definition start_hour :: "iso_parser \<Rightarrow> event_dict \<Rightarrow> py_exception + nat" where
  "start_hour fromisoformat event =
     bind_exc (event_time fromisoformat event ''start'') (\<lambda>d. Inr (hour d))"

text \<open>A list comprehension \<^verbatim>\<open>[e for e in xs if p(e)]\<close> whose condition may raise.\<close>

fun filter_exc :: "('a \<Rightarrow> py_exception + bool) \<Rightarrow> 'a list \<Rightarrow> py_exception + 'a list" where
  "filter_exc p [] = Inr []"
| "filter_exc p (x # xs) =
     bind_exc (p x) (\<lambda>keep.
     bind_exc (filter_exc p xs) (\<lambda>rest. Inr (if keep then x # rest else rest)))"

text \<open>
  Hours of sleep are reals: the estimate is one of 8.0, 6.0 and 7.0, and the target is
  any number but NaN.
\<close>

definition calculate_sleep_hours :: "iso_parser \<Rightarrow> event_dict list \<Rightarrow> event_dict list \<Rightarrow> py_exception + real" where
  "calculate_sleep_hours fromisoformat evening_events morning_events =
     bind_exc (filter_exc (\<lambda>e. bind_exc (start_hour fromisoformat e) (\<lambda>h. Inr (22 \<le> h)))
                 evening_events) (\<lambda>late_evening_events.
     bind_exc (filter_exc (\<lambda>e. bind_exc (start_hour fromisoformat e) (\<lambda>h. Inr (h \<le> 7)))
                 morning_events) (\<lambda>early_morning_events.
       if length late_evening_events = 0 \<and> length early_morning_events = 0 then Inr 8
       else if 0 < length late_evening_events then Inr 6
       else Inr 7))"

text \<open>The loop of \<^verbatim>\<open>_assess_sleep_impact\<close>, on the pair of lists it fills.\<close>

definition sleep_classes :: "iso_parser \<Rightarrow> event_dict list \<Rightarrow> py_exception + event_dict list \<times> event_dict list" where
  "sleep_classes fromisoformat events =
     for_each (\<lambda>event (evening_events, morning_events).
        bind_exc (start_hour fromisoformat event) (\<lambda>h.
          if 18 \<le> h then Inr (evening_events @ [event], morning_events)
          else if h \<le> 8 then Inr (evening_events, morning_events @ [event])
          else Inr (evening_events, morning_events)))
       events ([], [])"

record sleep_impact =
  estimated_sleep_hours :: real
  below_target :: bool
  evening_events_count :: nat
  morning_events_count :: nat

datatype sleep_result =
    SleepError string
  | SleepAssessed sleep_impact

definition assess_sleep_impact :: "iso_parser \<Rightarrow> event_dict list \<Rightarrow> real \<Rightarrow> sleep_result" where
  "assess_sleep_impact fromisoformat events sleep_target_hours =
     (case bind_exc (sleep_classes fromisoformat events) (\<lambda>(evening_events, morning_events).
           bind_exc (calculate_sleep_hours fromisoformat evening_events morning_events)
             (\<lambda>estimated. Inr
                \<lparr>estimated_sleep_hours = estimated,
                 below_target = (estimated < sleep_target_hours),
                 evening_events_count = length evening_events,
                 morning_events_count = length morning_events\<rparr>)) of
        Inl e \<Rightarrow> SleepError (''Failed to assess sleep impact: '' @ str_exc e)
      | Inr r \<Rightarrow> SleepAssessed r)"

section \<open>Proposals: the data model of the two assistant modules\<close>

text \<open>
  The dataclasses \<^verbatim>\<open>CalendarEvent\<close>, \<^verbatim>\<open>ChangeItem\<close>, \<^verbatim>\<open>Proposal\<close> and
  \<^verbatim>\<open>ConversationContext\<close>. A field whose Python name is shared between classes or is
  reserved here carries the class in its name: \<^verbatim>\<open>id\<close> is \<open>event_id\<close>, \<open>change_id\<close> or
  \<open>proposal_id\<close>; \<^verbatim>\<open>start\<close> and \<^verbatim>\<open>end\<close> are \<open>start_time\<close> and \<open>end_time\<close>;
  \<^verbatim>\<open>ChangeItem.type\<close>, \<^verbatim>\<open>ChangeItem.event\<close> and \<^verbatim>\<open>ChangeItem.accepted\<close> are
  \<open>item_type\<close>, \<open>proposed_event\<close> and \<open>acceptance\<close>; \<^verbatim>\<open>CalendarEvent.accepted\<close> is
  \<open>event_accepted\<close>; the keys of the sleep assessment start with \<open>assessed\<close>, and the
  preference \<^verbatim>\<open>sleep_target_hours\<close> is \<open>preferred_sleep_hours\<close>. The assistant module's
  \<^verbatim>\<open>CalendarEvent\<close> has no \<^verbatim>\<open>description\<close> and \<^verbatim>\<open>location\<close> (\<open>None\<close> here), its
  context no \<^verbatim>\<open>session_id\<close>, and its sleep assessment no event counts.
\<close>

record calendar_event =
  event_id :: string
  title :: string
  start_time :: string
  end_time :: string
  duration_minutes :: int
  source :: string
  change_type :: string
  original_event_id :: "string option"
  event_accepted :: "bool option"
  description :: "string option"
  location :: "string option"

record change_item =
  change_id :: string
  item_type :: string
  proposed_event :: calendar_event
  target_event_id :: "string option"
  rationale :: string
  acceptance :: string

record sleep_assessment =
  assessed_sleep_hours :: real
  assessed_below_target :: bool
  assessed_evening_events :: "nat option"
  assessed_morning_events :: "nat option"

record proposal =
  proposal_id :: string
  revision :: int
  changes :: "change_item list"
  summary :: string
  sleep_assessment :: sleep_assessment
  status :: string
  created_at :: string
  previous_proposal_id :: "string option"

record preferences =
  preferred_sleep_hours :: real
  priorities :: "string list"
  protected_windows :: "string list"
  iteration_count :: int

record conversation_context =
  problem_statement :: string
  clarifying_questions :: "string list"
  user_answers :: "string list"
  current_events :: "calendar_event list"
  proposals :: "proposal list"
  preferences :: preferences
  session_id :: string

text \<open>\<^verbatim>\<open>ConversationContext()\<close>, with the session identifier drawn for it.\<close>

definition new_context :: "string \<Rightarrow> conversation_context" where
  "new_context sid =
     \<lparr>problem_statement = [], clarifying_questions = [], user_answers = [],
      current_events = [], proposals = [],
      preferences = \<lparr>preferred_sleep_hours = 7, priorities = [''sleep'', ''focus''],
                     protected_windows = [], iteration_count = 0\<rparr>,
      session_id = sid\<rparr>"

text \<open>
  What the modules take from outside: the library's timestamp parser, the successive
  values of \<^verbatim>\<open>uuid.uuid4().hex[:8]\<close> during one call, and \<^verbatim>\<open>datetime.now().isoformat()\<close>.
\<close>

record env =
  env_fromisoformat :: iso_parser
  env_uuid_hex :: "nat \<Rightarrow> string"
  env_now :: string

text \<open>
  A function call requested by the text generator, with the arguments each calendar
  function takes; \<open>BadCall\<close> is a call whose arguments do not fit the function, which
  Python refuses with the given exception, and \<open>UnknownCall\<close> a name outside the table.
\<close>

datatype function_call =
    GetCalendarEvents string string
  | CreateCalendarEvent string string string string string
  | UpdateCalendarEvent string "(string \<times> string) list"
  | DeleteCalendarEvent string
  | GenerateScheduleProposal string "string list option"
  | AnalyzeScheduleConflicts "event_dict list"
  | AssessSleepImpact "event_dict list" real
  | BadCall py_exception
  | UnknownCall string

text \<open>The dictionary a calendar function returns, without its \<^verbatim>\<open>message\<close> entry.\<close>

datatype function_result =
    ErrorResult string
  | EventsResult "calendar_event list" nat
  | EventCreated string calendar_event
  | EventUpdated string "(string \<times> string) list"
  | EventDeleted string
  | ProposalResult proposal
  | ConflictsResult conflicts_result
  | SleepResult sleep_result

text \<open>
  The response of the text generator: the parts of its first candidate and its text.
\<close>

datatype part = TextPart string | CallPart function_call

record gen_response =
  response_parts :: "part list"
  response_text :: string

fun first_function_call :: "part list \<Rightarrow> function_call option" where
  "first_function_call [] = None"
| "first_function_call (TextPart t # ps) = first_function_call ps"
| "first_function_call (CallPart fc # ps) = Some fc"

section \<open>Proposal builder and conversation: \<^verbatim>\<open>gemini_calendar_chat.py\<close>\<close>

definition generate_proposal_changes :: "(nat \<Rightarrow> string) \<Rightarrow> string \<Rightarrow> string list \<Rightarrow> change_item list" where
  "generate_proposal_changes uuid_hex problem constraints =
     (let changes = [];
          changes =
            (if contains ''hectic'' (lower problem) \<or> contains ''busy'' (lower problem)
             then changes @
               [\<lparr>change_id = ''change_'' @ uuid_hex (2 * length changes),
                 item_type = ''add'',
                 proposed_event =
                   \<lparr>event_id = ''event_'' @ uuid_hex (2 * length changes + 1),
                    title = ''Focus Time'',
                    start_time = ''2025-01-15T09:00:00Z'',
                    end_time = ''2025-01-15T11:00:00Z'',
                    duration_minutes = 120,
                    source = ''proposed'',
                    change_type = ''add'',
                    original_event_id = None,
                    event_accepted = None,
                    description = Some ''Dedicated focus time for deep work'',
                    location = None\<rparr>,
                 target_event_id = None,
                 rationale = ''Added dedicated focus time to reduce hectic schedule and improve productivity'',
                 acceptance = ''pending''\<rparr>]
             else changes);
          changes =
            (if contains ''sleep'' (lower problem) \<or> contains ''tired'' (lower problem)
             then changes @
               [\<lparr>change_id = ''change_'' @ uuid_hex (2 * length changes),
                 item_type = ''move'',
                 proposed_event =
                   \<lparr>event_id = ''event_'' @ uuid_hex (2 * length changes + 1),
                    title = ''Evening Activity'',
                    start_time = ''2025-01-15T18:00:00Z'',
                    end_time = ''2025-01-15T19:00:00Z'',
                    duration_minutes = 60,
                    source = ''proposed'',
                    change_type = ''move'',
                    original_event_id = None,
                    event_accepted = None,
                    description = Some ''Moved to earlier time for better sleep'',
                    location = None\<rparr>,
                 target_event_id = Some ''existing_evening_event'',
                 rationale = ''Moved evening activity earlier to improve sleep schedule and ensure adequate rest'',
                 acceptance = ''pending''\<rparr>]
             else changes);
          changes =
            (if contains ''meeting'' (lower problem) \<or> contains ''conflict'' (lower problem)
             then changes @
               [\<lparr>change_id = ''change_'' @ uuid_hex (2 * length changes),
                 item_type = ''adjust'',
                 proposed_event =
                   \<lparr>event_id = ''event_'' @ uuid_hex (2 * length changes + 1),
                    title = ''Meeting Adjustment'',
                    start_time = ''2025-01-15T10:30:00Z'',
                    end_time = ''2025-01-15T11:30:00Z'',
                    duration_minutes = 60,
                    source = ''proposed'',
                    change_type = ''adjust'',
                    original_event_id = None,
                    event_accepted = None,
                    description = Some ''Adjusted time to resolve conflicts'',
                    location = None\<rparr>,
                 target_event_id = Some ''conflicting_meeting'',
                 rationale = ''Adjusted meeting time to resolve scheduling conflicts'',
                 acceptance = ''pending''\<rparr>]
             else changes);
          changes =
            (if changes = []
             then changes @
               [\<lparr>change_id = ''change_'' @ uuid_hex (2 * length changes),
                 item_type = ''add'',
                 proposed_event =
                   \<lparr>event_id = ''event_'' @ uuid_hex (2 * length changes + 1),
                    title = ''Optimization Block'',
                    start_time = ''2025-01-15T14:00:00Z'',
                    end_time = ''2025-01-15T15:00:00Z'',
                    duration_minutes = 60,
                    source = ''proposed'',
                    change_type = ''add'',
                    original_event_id = None,
                    event_accepted = None,
                    description = Some ''General schedule optimization'',
                    location = None\<rparr>,
                 target_event_id = None,
                 rationale = ''Added optimization block to improve overall schedule balance'',
                 acceptance = ''pending''\<rparr>]
             else changes)
      in changes)"

text \<open>
  \<^verbatim>\<open>_generate_schedule_proposal\<close>: the identifier of the proposal is drawn first, the
  identifiers of the changes after it. Nothing in its \<^verbatim>\<open>try\<close> block raises.
\<close>

definition generate_schedule_proposal :: "env \<Rightarrow> conversation_context \<Rightarrow> string \<Rightarrow> string list option \<Rightarrow> conversation_context \<times> function_result" where
  "generate_schedule_proposal e ctx problem_description constraints =
     (let constraints = (case constraints of None \<Rightarrow> [] | Some cs \<Rightarrow> cs);
          proposal_id = ''proposal_'' @ env_uuid_hex e 0;
          changes = generate_proposal_changes (\<lambda>n. env_uuid_hex e (Suc n))
                      problem_description constraints;
          proposal =
            \<lparr>proposal_id = proposal_id,
             revision = 1,
             changes = changes,
             summary = ''Schedule optimization for: '' @ problem_description,
             sleep_assessment =
               \<lparr>assessed_sleep_hours = 7.5, assessed_below_target = False,
                assessed_evening_events = Some 2, assessed_morning_events = Some 1\<rparr>,
             status = ''pending'',
             created_at = env_now e,
             previous_proposal_id = None\<rparr>
      in (ctx\<lparr>proposals := proposals ctx @ [proposal]\<rparr>, ProposalResult proposal))"

definition get_calendar_events :: "conversation_context \<Rightarrow> string \<Rightarrow> string \<Rightarrow> conversation_context \<times> function_result" where
  "get_calendar_events ctx start_date end_date =
     (let mock_events =
            [\<lparr>event_id = ''event_1'', title = ''Team Meeting'',
              start_time = start_date @ ''T09:00:00Z'', end_time = start_date @ ''T10:00:00Z'',
              duration_minutes = 60, source = ''current'', change_type = ''none'',
              original_event_id = None, event_accepted = None,
              description = None, location = None\<rparr>,
             \<lparr>event_id = ''event_2'', title = ''Lunch Break'',
              start_time = start_date @ ''T12:00:00Z'', end_time = start_date @ ''T13:00:00Z'',
              duration_minutes = 60, source = ''current'', change_type = ''none'',
              original_event_id = None, event_accepted = None,
              description = None, location = None\<rparr>,
             \<lparr>event_id = ''event_3'', title = ''Project Review'',
              start_time = start_date @ ''T14:00:00Z'', end_time = start_date @ ''T15:30:00Z'',
              duration_minutes = 90, source = ''current'', change_type = ''none'',
              original_event_id = None, event_accepted = None,
              description = None, location = None\<rparr>]
      in (ctx\<lparr>current_events := mock_events\<rparr>, EventsResult mock_events (length mock_events)))"

text \<open>
  \<^verbatim>\<open>int((end_dt - start_dt).total_seconds() / 60)\<close>: the difference in minutes, cut
  towards zero. Python refuses to subtract a naive value from an aware one.
\<close>

definition calculate_duration :: "iso_parser \<Rightarrow> string \<Rightarrow> string \<Rightarrow> py_exception + int" where
  "calculate_duration fromisoformat start_s end_s =
     bind_exc (fromisoformat (replace_Z start_s)) (\<lambda>start_dt.
     bind_exc (fromisoformat (replace_Z end_s)) (\<lambda>end_dt.
       if aware end_dt \<noteq> aware start_dt
       then Inl (TypeError ''can't subtract offset-naive and offset-aware datetimes'')
       else let us = instant end_dt - instant start_dt
            in Inr (if 0 \<le> us then us div 60000000 else - ((- us) div 60000000))))"

definition create_calendar_event :: "env \<Rightarrow> string \<Rightarrow> string \<Rightarrow> string \<Rightarrow> string \<Rightarrow> string \<Rightarrow> function_result" where
  "create_calendar_event e title_s start_datetime end_datetime description_s location_s =
     (let new_id = ''event_'' @ env_uuid_hex e 0
      in case calculate_duration (env_fromisoformat e) start_datetime end_datetime of
           Inl x \<Rightarrow> ErrorResult (''Failed to create event: '' @ str_exc x)
         | Inr minutes \<Rightarrow>
             EventCreated new_id
               \<lparr>event_id = new_id, title = title_s,
                start_time = start_datetime, end_time = end_datetime,
                duration_minutes = minutes, source = ''proposed'', change_type = ''add'',
                original_event_id = None, event_accepted = None,
                description = Some description_s, location = Some location_s\<rparr>)"

definition execute_calendar_function :: "env \<Rightarrow> conversation_context \<Rightarrow> function_call \<Rightarrow> conversation_context \<times> function_result" where
  "execute_calendar_function e ctx fc =
     (case fc of
        GetCalendarEvents start_date end_date \<Rightarrow> get_calendar_events ctx start_date end_date
      | CreateCalendarEvent t s f d l \<Rightarrow> (ctx, create_calendar_event e t s f d l)
      | UpdateCalendarEvent i updates \<Rightarrow> (ctx, EventUpdated i updates)
      | DeleteCalendarEvent i \<Rightarrow> (ctx, EventDeleted i)
      | GenerateScheduleProposal problem_description constraints \<Rightarrow>
          generate_schedule_proposal e ctx problem_description constraints
      | AnalyzeScheduleConflicts evs \<Rightarrow>
          (ctx, ConflictsResult (analyze_schedule_conflicts (env_fromisoformat e) evs))
      | AssessSleepImpact evs target \<Rightarrow>
          (ctx, SleepResult (assess_sleep_impact (env_fromisoformat e) evs target))
      | BadCall x \<Rightarrow> (ctx, ErrorResult (''Function execution failed: '' @ str_exc x))
      | UnknownCall name \<Rightarrow> (ctx, ErrorResult (''Unknown function: '' @ name)))"

text \<open>
  \<^verbatim>\<open>_is_clarifying_question\<close>. The third operand of its \<^verbatim>\<open>and\<close> calls
  \<^verbatim>\<open>response.lower().includes('proposal')\<close>; a Python string has no method
  \<^verbatim>\<open>includes\<close>, so evaluating that operand raises \<^verbatim>\<open>AttributeError\<close>. The operand is
  evaluated only when the first two hold.
\<close>

definition no_attribute_includes :: py_exception where
  "no_attribute_includes =
     AttributeError (CHR 0x27 # ''str'' @ CHR 0x27 # '' object has no attribute '' @
                     CHR 0x27 # ''includes'' @ [CHR 0x27])"

definition is_clarifying_question :: "conversation_context \<Rightarrow> string \<Rightarrow> py_exception + bool" where
  "is_clarifying_question ctx response =
     (if \<not> contains ''?'' response then Inr False
      else if \<not> length (user_answers ctx) < length (clarifying_questions ctx) then Inr False
      else Inl no_attribute_includes)"

text \<open>
  What a turn of the chat module says: a text, or the sentence that
  \<^verbatim>\<open>_generate_function_result_response\<close> words from a function result, kept as that
  result.
\<close>

datatype reply = Said string | SaidOfResult function_result

definition process_enhanced_response :: "env \<Rightarrow> conversation_context \<Rightarrow> gen_response \<Rightarrow> string \<Rightarrow> conversation_context \<times> (py_exception + reply)" where
  "process_enhanced_response e ctx response user_input =
     (case first_function_call (response_parts response) of
        Some fc \<Rightarrow>
          (let (ctx', function_result) = execute_calendar_function e ctx fc
           in (ctx', Inr (SaidOfResult function_result)))
      | None \<Rightarrow>
          (case is_clarifying_question ctx (response_text response) of
             Inl x \<Rightarrow> (ctx, Inl x)
           | Inr True \<Rightarrow>
               (ctx\<lparr>clarifying_questions := clarifying_questions ctx @ [response_text response]\<rparr>,
                Inr (Said (response_text response)))
           | Inr False \<Rightarrow>
               (if length (user_answers ctx) < length (clarifying_questions ctx)
                then (ctx\<lparr>user_answers := user_answers ctx @ [user_input]\<rparr>,
                      Inr (Said (response_text response)))
                else (ctx, Inr (Said (response_text response))))))"

text \<open>
  The chat object: its context and the history of its base client. A turn receives the
  outcome of \<^verbatim>\<open>generate_content\<close>, an exception or a response.
\<close>

record chat =
  chat_context :: conversation_context
  conversation_history :: "(string \<times> reply) list"

definition chat_with_calendar_context :: "env \<Rightarrow> chat \<Rightarrow> string \<Rightarrow> py_exception + gen_response \<Rightarrow> chat \<times> reply" where
  "chat_with_calendar_context e st user_input outcome =
     (let st = st\<lparr>conversation_history := conversation_history st @ [(''user'', Said user_input)]\<rparr>;
          st = (if problem_statement (chat_context st) = []
                then st\<lparr>chat_context := (chat_context st)\<lparr>problem_statement := user_input\<rparr>\<rparr>
                else st);
          (st, processed) =
            (case outcome of
               Inl x \<Rightarrow> (st, Inl x)
             | Inr response \<Rightarrow>
                 (let (ctx', r) = process_enhanced_response e (chat_context st) response user_input
                  in (st\<lparr>chat_context := ctx'\<rparr>, r)))
      in case processed of
           Inr processed_response \<Rightarrow>
             (st\<lparr>conversation_history :=
                   conversation_history st @ [(''assistant'', processed_response)]\<rparr>,
              processed_response)
         | Inl x \<Rightarrow>
             (st\<lparr>conversation_history :=
                   conversation_history st @
                     [(''assistant'', Said (''I encountered an error: '' @ str_exc x))]\<rparr>,
              Said (''I encountered an error: '' @ str_exc x)))"

section \<open>Proposal builder and conversation: \<^verbatim>\<open>gemini_calendar_assistant.py\<close>\<close>

definition asst_generate_proposal_changes :: "(nat \<Rightarrow> string) \<Rightarrow> string \<Rightarrow> string list \<Rightarrow> change_item list" where
  "asst_generate_proposal_changes uuid_hex problem constraints =
     (let changes = [];
          changes =
            (if contains ''hectic'' (lower problem) \<or> contains ''busy'' (lower problem)
             then changes @
               [\<lparr>change_id = ''change_'' @ uuid_hex (2 * length changes),
                 item_type = ''add'',
                 proposed_event =
                   \<lparr>event_id = ''event_'' @ uuid_hex (2 * length changes + 1),
                    title = ''Focus Time'',
                    start_time = ''2025-01-15T09:00:00Z'',
                    end_time = ''2025-01-15T11:00:00Z'',
                    duration_minutes = 120,
                    source = ''proposed'',
                    change_type = ''add'',
                    original_event_id = None,
                    event_accepted = None,
                    description = None,
                    location = None\<rparr>,
                 target_event_id = None,
                 rationale = ''Added dedicated focus time to reduce hectic schedule'',
                 acceptance = ''pending''\<rparr>]
             else changes);
          changes =
            (if contains ''sleep'' (lower problem)
             then changes @
               [\<lparr>change_id = ''change_'' @ uuid_hex (2 * length changes),
                 item_type = ''move'',
                 proposed_event =
                   \<lparr>event_id = ''event_'' @ uuid_hex (2 * length changes + 1),
                    title = ''Evening Activity'',
                    start_time = ''2025-01-15T18:00:00Z'',
                    end_time = ''2025-01-15T19:00:00Z'',
                    duration_minutes = 60,
                    source = ''proposed'',
                    change_type = ''move'',
                    original_event_id = None,
                    event_accepted = None,
                    description = None,
                    location = None\<rparr>,
                 target_event_id = Some ''existing_evening_event'',
                 rationale = ''Moved evening activity earlier to improve sleep schedule'',
                 acceptance = ''pending''\<rparr>]
             else changes)
      in changes)"

definition asst_generate_schedule_proposal :: "env \<Rightarrow> conversation_context \<Rightarrow> string \<Rightarrow> string list option \<Rightarrow> conversation_context \<times> function_result" where
  "asst_generate_schedule_proposal e ctx problem_description constraints =
     (let constraints = (case constraints of None \<Rightarrow> [] | Some cs \<Rightarrow> cs);
          proposal_id = ''proposal_'' @ env_uuid_hex e 0;
          changes = asst_generate_proposal_changes (\<lambda>n. env_uuid_hex e (Suc n))
                      problem_description constraints;
          proposal =
            \<lparr>proposal_id = proposal_id,
             revision = 1,
             changes = changes,
             summary = ''Schedule optimization for: '' @ problem_description,
             sleep_assessment =
               \<lparr>assessed_sleep_hours = 7.5, assessed_below_target = False,
                assessed_evening_events = None, assessed_morning_events = None\<rparr>,
             status = ''pending'',
             created_at = env_now e,
             previous_proposal_id = None\<rparr>
      in (ctx\<lparr>proposals := proposals ctx @ [proposal]\<rparr>, ProposalResult proposal))"

definition asst_get_calendar_events :: "conversation_context \<Rightarrow> string \<Rightarrow> string \<Rightarrow> conversation_context \<times> function_result" where
  "asst_get_calendar_events ctx start_date end_date =
     (let mock_events =
            [\<lparr>event_id = ''event_1'', title = ''Team Meeting'',
              start_time = start_date @ ''T09:00:00Z'', end_time = start_date @ ''T10:00:00Z'',
              duration_minutes = 60, source = ''current'', change_type = ''none'',
              original_event_id = None, event_accepted = None,
              description = None, location = None\<rparr>,
             \<lparr>event_id = ''event_2'', title = ''Lunch Break'',
              start_time = start_date @ ''T12:00:00Z'', end_time = start_date @ ''T13:00:00Z'',
              duration_minutes = 60, source = ''current'', change_type = ''none'',
              original_event_id = None, event_accepted = None,
              description = None, location = None\<rparr>]
      in (ctx\<lparr>current_events := mock_events\<rparr>, EventsResult mock_events (length mock_events)))"

definition asst_create_calendar_event :: "env \<Rightarrow> string \<Rightarrow> string \<Rightarrow> string \<Rightarrow> function_result" where
  "asst_create_calendar_event e title_s start_datetime end_datetime =
     (let new_id = ''event_'' @ env_uuid_hex e 0
      in case calculate_duration (env_fromisoformat e) start_datetime end_datetime of
           Inl x \<Rightarrow> ErrorResult (''Failed to create event: '' @ str_exc x)
         | Inr minutes \<Rightarrow>
             EventCreated new_id
               \<lparr>event_id = new_id, title = title_s,
                start_time = start_datetime, end_time = end_datetime,
                duration_minutes = minutes, source = ''proposed'', change_type = ''add'',
                original_event_id = None, event_accepted = None,
                description = None, location = None\<rparr>)"

definition execute_function_call :: "env \<Rightarrow> conversation_context \<Rightarrow> function_call \<Rightarrow> conversation_context \<times> function_result" where
  "execute_function_call e ctx fc =
     (case fc of
        GetCalendarEvents start_date end_date \<Rightarrow> asst_get_calendar_events ctx start_date end_date
      | CreateCalendarEvent t s f d l \<Rightarrow> (ctx, asst_create_calendar_event e t s f)
      | UpdateCalendarEvent i updates \<Rightarrow> (ctx, EventUpdated i updates)
      | DeleteCalendarEvent i \<Rightarrow> (ctx, EventDeleted i)
      | GenerateScheduleProposal problem_description constraints \<Rightarrow>
          asst_generate_schedule_proposal e ctx problem_description constraints
      | AnalyzeScheduleConflicts evs \<Rightarrow>
          (ctx, ConflictsResult (asst_analyze_schedule_conflicts (env_fromisoformat e) evs))
      | AssessSleepImpact evs target \<Rightarrow>
          (ctx, ErrorResult ''Unknown function: assess_sleep_impact'')
      | BadCall x \<Rightarrow> (ctx, ErrorResult (''Function execution failed: '' @ str_exc x))
      | UnknownCall name \<Rightarrow> (ctx, ErrorResult (''Unknown function: '' @ name)))"

text \<open>
  The dictionary a turn of the assistant module returns, by its \<^verbatim>\<open>type\<close> entry. A
  function result carries the text of the follow-up generation, or \<open>None\<close> when that
  generation failed and the message is worded from the result itself.
\<close>

datatype turn_result =
    ErrorTurn string "string list"
  | ClarifyingQuestion string
  | ProposalTurn string "proposal option"
  | ResponseTurn string
  | FunctionResultTurn "string option" function_result

definition continue_conversation_with_result :: "function_result \<Rightarrow> py_exception + gen_response \<Rightarrow> turn_result" where
  "continue_conversation_with_result function_result follow_up =
     (case follow_up of
        Inr follow_up_response \<Rightarrow>
          FunctionResultTurn (Some (response_text follow_up_response)) function_result
      | Inl x \<Rightarrow> FunctionResultTurn None function_result)"

definition extract_proposal_from_response :: "string \<Rightarrow> proposal option" where
  "extract_proposal_from_response response_s = None"

definition process_gemini_response :: "env \<Rightarrow> conversation_context \<Rightarrow> gen_response \<Rightarrow> string \<Rightarrow> py_exception + gen_response \<Rightarrow> conversation_context \<times> turn_result" where
  "process_gemini_response e ctx response user_input follow_up =
     (case first_function_call (response_parts response) of
        Some fc \<Rightarrow>
          (let (ctx', function_result) = execute_function_call e ctx fc
           in (ctx', continue_conversation_with_result function_result follow_up))
      | None \<Rightarrow>
          (if contains ''?'' (response_text response) \<and>
              length (user_answers ctx) < length (clarifying_questions ctx)
           then (ctx\<lparr>clarifying_questions := clarifying_questions ctx @ [response_text response]\<rparr>,
                 ClarifyingQuestion (response_text response))
           else if contains ''proposal'' (lower (response_text response)) \<or>
                   contains ''schedule'' (lower (response_text response))
           then (ctx, ProposalTurn (response_text response)
                        (extract_proposal_from_response (response_text response)))
           else (ctx, ResponseTurn (response_text response))))"

text \<open>
  \<^verbatim>\<open>process_user_input\<close>: \<open>outcome\<close> is what the first \<^verbatim>\<open>generate_content\<close> of the turn
  does, \<open>follow_up\<close> what the second one does when a function was called.
\<close>

definition process_user_input :: "env \<Rightarrow> conversation_context \<Rightarrow> string \<Rightarrow> py_exception + gen_response \<Rightarrow> py_exception + gen_response \<Rightarrow> conversation_context \<times> turn_result" where
  "process_user_input e ctx user_input outcome follow_up =
     (let ctx = (if problem_statement ctx = [] then ctx\<lparr>problem_statement := user_input\<rparr> else ctx)
      in case outcome of
           Inr response \<Rightarrow> process_gemini_response e ctx response user_input follow_up
         | Inl x \<Rightarrow>
             (ctx, ErrorTurn (''I encountered an error: '' @ str_exc x)
                     [''Try rephrasing your request'', ''Check your calendar permissions'']))"

section \<open>Embedding service: \<^verbatim>\<open>supabase-integration/embedding_service.py\<close>\<close>

subsection \<open>\<^verbatim>\<open>_generate_fallback_embedding\<close>\<close>

text \<open>\<^verbatim>\<open>str.split()\<close> without arguments: the maximal runs of characters that are not white space.\<close>

definition is_space :: "char \<Rightarrow> bool" where
  "is_space c = ((of_char c :: nat) \<in> {9, 10, 11, 12, 13, 28, 29, 30, 31, 32})"

fun split_from :: "string \<Rightarrow> string \<Rightarrow> string list" where
  "split_from word [] = (if word = [] then [] else [word])"
| "split_from word (c # cs) =
     (if is_space c then (if word = [] then split_from [] cs else word # split_from [] cs)
      else split_from (word @ [c]) cs)"

definition split :: "string \<Rightarrow> string list" where
  "split s = split_from [] s"

text \<open>\<^verbatim>\<open>str(i)\<close> for a natural number.\<close>

fun str_nat :: "nat \<Rightarrow> string" where
  "str_nat n =
     (if n < 10 then [''0123456789'' ! n]
      else str_nat (n div 10) @ [''0123456789'' ! (n mod 10)])"

declare str_nat.simps [simp del]

text \<open>
  \<^verbatim>\<open>int(s, 16)\<close> on a string of hexadecimal digits; any other string is taken to raise
  \<^verbatim>\<open>ValueError\<close>.
\<close>

definition hex_digit :: "char \<Rightarrow> nat option" where
  "hex_digit c =
     map_of (zip ''0123456789abcdefABCDEF'' [0, 1, 2, 3, 4, 5, 6, 7, 8, 9, 10, 11, 12, 13, 14, 15,
                                            10, 11, 12, 13, 14, 15]) c"

definition hex_value :: "string \<Rightarrow> nat" where
  "hex_value s = foldl (\<lambda>v c. 16 * v + (case hex_digit c of None \<Rightarrow> 0 | Some d \<Rightarrow> d)) 0 s"

definition int16 :: "string \<Rightarrow> py_exception + nat" where
  "int16 s =
     (if s \<noteq> [] \<and> list_all (\<lambda>c. hex_digit c \<noteq> None) s then Inr (hex_value s)
      else Inl (ValueError (''invalid literal for int() with base 16: '' @ s)))"

text \<open>
  \<^verbatim>\<open>hashlib.md5(b).hexdigest()\<close> belongs to the Python library and is a parameter of the
  model, from the bytes of an ASCII string to the 32 hexadecimal digits of the digest.
  The division by \<^verbatim>\<open>2**31\<close> and the subtraction of 1.0 are exact in 64-bit floats for a
  numerator below \<^verbatim>\<open>2**32\<close>, so the components are the same numbers as reals.
\<close>

type_synonym md5_hexdigest = "string \<Rightarrow> string"

definition generate_fallback_embedding :: "md5_hexdigest \<Rightarrow> string \<Rightarrow> py_exception + real list" where
  "generate_fallback_embedding md5 text =
     (let text_lower = lower text;
          words = split text_lower
      in for_each (\<lambda>i hash_values.
           let source_text =
                 (if i < length text_lower then text_lower
                  else if words \<noteq> [] then words ! (i mod length words)
                  else text_lower);
               hash_input = source_text @ ''_'' @ str_nat i
           in bind_exc (int16 (take 8 (md5 hash_input))) (\<lambda>hash_value.
                Inr (hash_values @ [real hash_value / 2 ^ 31 - 1])))
         [0..<768] [])"

subsection \<open>\<^verbatim>\<open>similarity\<close>\<close>

text \<open>
  Vectors are lists of reals: the model abstracts from rounding, overflow and NaN of the
  64-bit floats. \<^verbatim>\<open>np.dot\<close> of two one-dimensional arrays raises \<^verbatim>\<open>ValueError\<close> when
  their lengths differ; \<^verbatim>\<open>np.linalg.norm\<close> is the Euclidean norm.
\<close>

definition np_dot :: "real list \<Rightarrow> real list \<Rightarrow> py_exception + real" where
  "np_dot vec1 vec2 =
     (if length vec1 \<noteq> length vec2 then Inl (ValueError ''shapes not aligned'')
      else Inr (sum_list (map2 (*) vec1 vec2)))"

definition np_linalg_norm :: "real list \<Rightarrow> real" where
  "np_linalg_norm vec = sqrt (sum_list (map (\<lambda>x. x * x) vec))"

text \<open>The body of the \<^verbatim>\<open>try\<close> block.\<close>

definition similarity_try :: "real list \<Rightarrow> real list \<Rightarrow> py_exception + real" where
  "similarity_try embedding1 embedding2 =
     (case np_dot embedding1 embedding2 of
        Inl e \<Rightarrow> Inl e
      | Inr dot_product \<Rightarrow>
          (let norm1 = np_linalg_norm embedding1;
               norm2 = np_linalg_norm embedding2
           in if norm1 = 0 \<or> norm2 = 0 then Inr 0
              else Inr (dot_product / (norm1 * norm2))))"

text \<open>\<^verbatim>\<open>except Exception\<close>: print and return \<open>0.0\<close>.\<close>

definition similarity :: "real list \<Rightarrow> real list \<Rightarrow> py_exception + real" where
  "similarity embedding1 embedding2 =
     (case similarity_try embedding1 embedding2 of
        Inl e \<Rightarrow> Inr 0
      | Inr r \<Rightarrow> Inr r)"

section \<open>Reference notions and example data\<close>

subsection \<open>Half-open interval overlap\<close>

text \<open>
  The specification's predicate on the parsed start and end times of events \<open>i\<close> and
  \<open>j\<close>, and the index pairs \<open>i < j\<close> below \<open>n\<close> that satisfy it, in lexicographic order.
\<close>

definition spec_overlap :: "datetime list \<Rightarrow> datetime list \<Rightarrow> nat \<Rightarrow> nat \<Rightarrow> bool" where
  "spec_overlap starts ends i j =
     (instant (starts ! i) < instant (ends ! j) \<and> instant (starts ! j) < instant (ends ! i))"

definition spec_conflict_pairs :: "(nat \<Rightarrow> nat \<Rightarrow> bool) \<Rightarrow> nat \<Rightarrow> (nat \<times> nat) list" where
  "spec_conflict_pairs ov n =
     concat (map (\<lambda>i. map (Pair i) (filter (ov i) [Suc i..<n])) [0..<n])"

definition spec_conflicts :: "datetime list \<Rightarrow> datetime list \<Rightarrow> nat \<Rightarrow> (nat \<times> nat) list" where
  "spec_conflicts starts ends n = spec_conflict_pairs (spec_overlap starts ends) n"

text \<open>The dictionary appended for the pair of events at positions \<open>fst p\<close> and \<open>snd p\<close>.\<close>

definition conflict_of :: "string option \<Rightarrow> event_dict list \<Rightarrow> nat \<times> nat \<Rightarrow> conflict" where
  "conflict_of sev events p =
     \<lparr>event1 = events ! fst p, event2 = events ! snd p,
      conflict_type = ''time_overlap'', severity = sev\<rparr>"

subsection \<open>The three-bucket sleep rule\<close>

text \<open>The specification's rule on the start hours of the events.\<close>

definition spec_sleep_hours :: "nat list \<Rightarrow> real" where
  "spec_sleep_hours hs =
     (if \<not> (\<exists>h \<in> set hs. 22 \<le> h) \<and> \<not> (\<exists>h \<in> set hs. h \<le> 7) then 8
      else if \<exists>h \<in> set hs. 22 \<le> h then 6
      else 7)"

subsection \<open>Fallback embedding\<close>

text \<open>
  The source string the code hashes for dimension \<open>i\<close>, and the embedding as the
  specification words it: the word at \<open>i mod wordCount\<close> when \<open>i\<close> is beyond the text, and
  the low 32 bits of the digest read as one number.
\<close>

definition fallback_source :: "string \<Rightarrow> nat \<Rightarrow> string" where
  "fallback_source text i =
     (if i < length (lower text) then lower text
      else if split (lower text) \<noteq> [] then split (lower text) ! (i mod length (split (lower text)))
      else lower text)"

definition spec_fallback_source :: "string \<Rightarrow> nat \<Rightarrow> string" where
  "spec_fallback_source text i =
     (if i < length (lower text) then lower text
      else split (lower text) ! (i mod length (split (lower text))))"

definition spec_fallbackEmbed :: "md5_hexdigest \<Rightarrow> string \<Rightarrow> real list" where
  "spec_fallbackEmbed md5 text =
     map (\<lambda>i. real (hex_value (md5 (spec_fallback_source text i @ ''_'' @ str_nat i)) mod 2 ^ 32)
                / 2 ^ 31 - 1)
       [0..<768]"

text \<open>
  The MD5 digest of the one string hashed in the examples; any other string gets a
  placeholder of 32 zeros.
\<close>

definition md5_examples :: md5_hexdigest where
  "md5_examples s =
     (case map_of [(''a_0'', ''6a9275b7f966e45ffb33492e358c8dff'')] s of
        None \<Rightarrow> ''00000000000000000000000000000000''
      | Some d \<Rightarrow> d)"

subsection \<open>Example timestamps\<close>

definition utc :: "nat \<Rightarrow> nat \<Rightarrow> nat \<Rightarrow> nat \<Rightarrow> nat \<Rightarrow> datetime" where
  "utc y mo d h mi =
     \<lparr>year = y, month = mo, day = d, hour = h, minute = mi, second = 0, microsecond = 0,
      utcoffset = Some 0\<rparr>"

text \<open>
  What \<^verbatim>\<open>datetime.fromisoformat\<close> returns on the strings of the examples below; a string
  outside the table stands for one that does not parse.
\<close>

definition iso_examples :: iso_parser where
  "iso_examples s =
     (case map_of
        [(''2025-01-15T07:00:00+00:00'', utc 2025 1 15 7 0),
         (''2025-01-15T08:30:00+00:00'', utc 2025 1 15 8 30),
         (''2025-01-15T09:00:00+00:00'', utc 2025 1 15 9 0),
         (''2025-01-15T10:00:00+00:00'', utc 2025 1 15 10 0),
         (''2025-01-15T10:30:00+00:00'', utc 2025 1 15 10 30),
         (''2025-01-15T11:00:00+00:00'', utc 2025 1 15 11 0),
         (''2025-01-15T12:00:00+00:00'', utc 2025 1 15 12 0),
         (''2025-01-15T18:00:00+00:00'', utc 2025 1 15 18 0),
         (''2025-01-15T22:30:00+00:00'', utc 2025 1 15 22 30),
         (''2025-01-15T09:30:00'', (utc 2025 1 15 9 30)\<lparr>utcoffset := None\<rparr>)] s of
        None \<Rightarrow> Inl (ValueError (''Invalid isoformat string: '' @ s))
      | Some d \<Rightarrow> Inr d)"

definition ev :: "string \<Rightarrow> string \<Rightarrow> string \<Rightarrow> event_dict" where
  "ev t s e = [(''title'', t), (''start'', s), (''end'', e)]"

subsection \<open>Proposal builder and revision chain\<close>

text \<open>
  The kind of a change, the title of its event and the event it targets; and the
  specification's four triggers as a list of such triples.
\<close>

definition change_shape :: "change_item \<Rightarrow> string \<times> string \<times> string option" where
  "change_shape c = (item_type c, title (proposed_event c), target_event_id c)"

definition spec_triggers :: "string \<Rightarrow> (string \<times> string \<times> string option) list" where
  "spec_triggers problem =
     (let fired =
            (if contains ''hectic'' (lower problem) \<or> contains ''busy'' (lower problem)
             then [(''add'', ''Focus Time'', None)] else []) @
            (if contains ''sleep'' (lower problem) \<or> contains ''tired'' (lower problem)
             then [(''move'', ''Evening Activity'', Some ''existing_evening_event'')] else []) @
            (if contains ''meeting'' (lower problem) \<or> contains ''conflict'' (lower problem)
             then [(''adjust'', ''Meeting Adjustment'', Some ''conflicting_meeting'')] else [])
      in if fired = [] then [(''add'', ''Optimization Block'', None)] else fired)"

text \<open>
  The revision-chain invariant on the proposals of a context: a proposal without
  predecessor has revision 1, and one with \<open>previous_proposal_id\<close> set has a predecessor
  with that identifier in the list and the predecessor's revision plus one.
\<close>

definition revision_chain_ok :: "proposal list \<Rightarrow> bool" where
  "revision_chain_ok ps =
     list_all (\<lambda>p. case previous_proposal_id p of
                      None \<Rightarrow> revision p = 1
                    | Some q \<Rightarrow>
                        list_ex (\<lambda>pred. proposal_id pred = q \<and> revision p = revision pred + 1) ps)
       ps"

text \<open>What one turn may do to the list of proposals: nothing, or append a first revision.\<close>

definition appends_first_revision :: "proposal list \<Rightarrow> proposal list \<Rightarrow> bool" where
  "appends_first_revision before after =
     (after = before \<or>
      (\<exists>p. after = before @ [p] \<and> revision p = 1 \<and> previous_proposal_id p = None))"

text \<open>An environment for the examples, and a context with one question waiting for its answer.\<close>

definition pending_context :: conversation_context where
  "pending_context =
     (new_context ''session-1'')
       \<lparr>problem_statement := ''my week is hectic'',
        clarifying_questions := [''Which days are worst?'']\<rparr>"


definition env_example :: env where
  "env_example =
     \<lparr>env_fromisoformat = iso_examples,
      env_uuid_hex = (\<lambda>n. ''0000000'' @ [''0123456789abcdef'' ! (n mod 16)]),
      env_now = ''2025-01-14T20:15:00''\<rparr>"

section \<open>Properties\<close>

subsection \<open>Conflict detection\<close>

lemma for_each_append:
  "(\<And>x acc. x \<in> set xs \<Longrightarrow> body x acc = Inr (acc @ g x)) \<Longrightarrow>
   for_each body xs acc = Inr (acc @ concat (map g xs))"
  by (induction xs arbitrary: acc) simp_all

lemma enumerate_from:
  "enumerate k (drop k xs) = map (\<lambda>j. (j, xs ! j)) [k..<length xs]"
  by (rule nth_equalityI) (simp_all add: nth_enumerate_eq)

lemma concat_if_filter:
  "concat (map (\<lambda>j. if P j then [h j] else []) js) = map h (filter P js)"
  by (induction js) simp_all

lemma spec_conflict_pairs_set:
  "set (spec_conflict_pairs ov n) = {(i, j). i < j \<and> j < n \<and> ov i j}"
  by (fastforce simp: spec_conflict_pairs_def)

lemma distinct_tagged:
  "distinct ks \<Longrightarrow> (\<And>i. distinct (g i)) \<Longrightarrow>
   distinct (concat (map (\<lambda>i. map (Pair i) (g i)) ks))"
  by (induction ks) (auto simp: distinct_map inj_on_def)

lemma spec_conflict_pairs_distinct: "distinct (spec_conflict_pairs ov n)"
  unfolding spec_conflict_pairs_def by (rule distinct_tagged) simp_all

lemma events_overlap_parsed:
  assumes "event_time f a ''start'' = Inr s1" "event_time f a ''end'' = Inr e1"
      and "event_time f b ''start'' = Inr s2" "event_time f b ''end'' = Inr e2"
      and "aware s1 = aw" "aware e1 = aw" "aware s2 = aw" "aware e2 = aw"
  shows "events_overlap f a b = Inr (instant s1 < instant e2 \<and> instant s2 < instant e1)"
  using assms by (simp add: events_overlap_def bind_exc_def dt_less_def)

lemma parsed_nth:
  assumes "map g events = map Inr ds" "i < length events"
  shows "g (events ! i) = Inr (ds ! i)"
proof -
  have len: "length ds = length events"
    using assms(1) by (metis length_map)
  have "map g events ! i = map Inr ds ! i" using assms(1) by simp
  then show ?thesis using assms(2) len by simp
qed

lemma overlap_nth:
  assumes starts: "map (\<lambda>e. event_time f e ''start'') events = map Inr starts"
      and ends: "map (\<lambda>e. event_time f e ''end'') events = map Inr ends"
      and ref: "\<forall>d \<in> set (starts @ ends). aware d = aw"
      and i: "i < length events" and j: "j < length events"
  shows "events_overlap f (events ! i) (events ! j) = Inr (spec_overlap starts ends i j)"
proof -
  have ls: "length starts = length events" using starts by (metis length_map)
  have le: "length ends = length events" using ends by (metis length_map)
  have aw: "aware (starts ! i) = aw" "aware (ends ! i) = aw"
           "aware (starts ! j) = aw" "aware (ends ! j) = aw"
    using ref i j ls le by simp_all
  show ?thesis
    unfolding spec_overlap_def
    by (rule events_overlap_parsed
        [OF parsed_nth [OF starts i] parsed_nth [OF ends i]
            parsed_nth [OF starts j] parsed_nth [OF ends j] aw])
qed

text \<open>
  With every timestamp parsed and all of them naive or all of them aware, the two nested
  loops append one dictionary for each overlapping pair \<open>i < j\<close>, in the order visited.
\<close>

lemma conflicts_loop_parsed:
  assumes starts: "map (\<lambda>e. event_time f e ''start'') events = map Inr starts"
      and ends: "map (\<lambda>e. event_time f e ''end'') events = map Inr ends"
      and ref: "\<forall>d \<in> set (starts @ ends). aware d = aw"
  shows "conflicts_loop f sev events =
         Inr (map (conflict_of sev events) (spec_conflicts starts ends (length events)))"
proof -
  let ?n = "length events"
  let ?ov = "spec_overlap starts ends"
  let ?inner = "\<lambda>event1 (j, event2) conflicts.
           bind_exc (events_overlap f event1 event2) (\<lambda>overlap.
             if overlap
             then Inr (conflicts @ [\<lparr>event1 = event1, event2 = event2,
                                     conflict_type = ''time_overlap'', severity = sev\<rparr>])
             else Inr conflicts)"
  let ?row = "\<lambda>i. map (conflict_of sev events) (map (Pair i) (filter (?ov i) [Suc i..<?n]))"
  have inner: "for_each (?inner (events ! i)) (enumerate (i + 1) (drop (i + 1) events)) acc
               = Inr (acc @ ?row i)" if i: "i < ?n" for i acc
  proof -
    have step: "?inner (events ! i) x a =
                Inr (a @ (\<lambda>(j, e). if ?ov i j then [conflict_of sev events (i, j)] else []) x)"
      if "x \<in> set (map (\<lambda>j. (j, events ! j)) [Suc i..<?n])" for x a
    proof -
      from that obtain j where x: "x = (j, events ! j)" and j: "j < ?n" by auto
      show ?thesis
        by (simp add: x overlap_nth [OF starts ends ref i j] bind_exc_def conflict_of_def)
    qed
    have "for_each (?inner (events ! i)) (map (\<lambda>j. (j, events ! j)) [Suc i..<?n]) acc =
          Inr (acc @ concat (map (\<lambda>(j, e). if ?ov i j then [conflict_of sev events (i, j)] else [])
                 (map (\<lambda>j. (j, events ! j)) [Suc i..<?n])))"
      by (rule for_each_append) (rule step)
    also have "concat (map (\<lambda>(j, e). if ?ov i j then [conflict_of sev events (i, j)] else [])
                 (map (\<lambda>j. (j, events ! j)) [Suc i..<?n])) = ?row i"
      by (simp add: comp_def concat_if_filter)
    finally show ?thesis by (simp add: enumerate_from)
  qed
  have outer: "(\<lambda>(i, event1) conflicts.
        for_each (?inner event1) (enumerate (i + 1) (drop (i + 1) events)) conflicts) x acc
        = Inr (acc @ (\<lambda>(i, e). ?row i) x)"
    if "x \<in> set (map (\<lambda>i. (i, events ! i)) [0..<?n])" for x acc
  proof -
    from that obtain i where x: "x = (i, events ! i)" and i: "i < ?n" by auto
    show ?thesis using inner [OF i] by (simp add: x)
  qed
  have enum: "enumerate 0 events = map (\<lambda>i. (i, events ! i)) [0..<?n]"
    using enumerate_from [of 0 events] by simp
  have "conflicts_loop f sev events =
        Inr ([] @ concat (map (\<lambda>(i, e). ?row i) (map (\<lambda>i. (i, events ! i)) [0..<?n])))"
    unfolding conflicts_loop_def enum
    by (rule for_each_append) (rule outer)
  also have "concat (map (\<lambda>(i, e). ?row i) (map (\<lambda>i. (i, events ! i)) [0..<?n]))
             = map (conflict_of sev events) (spec_conflicts starts ends ?n)"
    by (simp add: spec_conflicts_def spec_conflict_pairs_def map_concat comp_def)
  finally show ?thesis by simp
qed



lemma analyze_pair:
  "events_overlap f a b = Inr ov \<Longrightarrow>
   analyze_schedule_conflicts f [a, b] =
     (if ov then ConflictsFound [\<lparr>event1 = a, event2 = b, conflict_type = ''time_overlap'',
                                  severity = Some ''high''\<rparr>] 1
      else ConflictsFound [] 0)"
  by (simp add: analyze_schedule_conflicts_def conflicts_loop_def bind_exc_def)

text \<open>
  A naive timestamp next to an aware one: the comparison raises, and the detector
  returns the error dictionary.
\<close>

lemma mixed_awareness_is_an_error:
  "analyze_schedule_conflicts iso_examples
     [ev ''Naive'' ''2025-01-15T09:30:00'' ''2025-01-15T09:30:00'',
      ev ''Aware'' ''2025-01-15T09:00:00Z'' ''2025-01-15T10:00:00Z'']
   = ConflictsError
       ''Failed to analyze conflicts: can't compare offset-naive and offset-aware datetimes''"
  by (simp add: analyze_schedule_conflicts_def conflicts_loop_def events_overlap_def
      event_time_def ev_def getitem_def bind_exc_def replace_Z_def iso_examples_def
      dt_less_def aware_def utc_def)

text \<open>
  Claim C2, as stated, fails: a zero-duration event at 10:00 is reported in conflict with
  an event from 09:00 to 11:00.
\<close>

theorem zero_duration_inside_counterexample:
  "analyze_schedule_conflicts iso_examples
     [ev ''Ping'' ''2025-01-15T10:00:00Z'' ''2025-01-15T10:00:00Z'',
      ev ''Workshop'' ''2025-01-15T09:00:00Z'' ''2025-01-15T11:00:00Z'']
   = ConflictsFound
       [\<lparr>event1 = ev ''Ping'' ''2025-01-15T10:00:00Z'' ''2025-01-15T10:00:00Z'',
         event2 = ev ''Workshop'' ''2025-01-15T09:00:00Z'' ''2025-01-15T11:00:00Z'',
         conflict_type = ''time_overlap'', severity = Some ''high''\<rparr>] 1"
  by (simp add: analyze_schedule_conflicts_def conflicts_loop_def events_overlap_def
      event_time_def ev_def getitem_def bind_exc_def replace_Z_def iso_examples_def
      dt_less_def aware_def instant_def wall_clock_def utc_def)

text \<open>
  Claim C2, amended. A zero-duration event \<open>a\<close> (start and end at the same instant) is
  reported in conflict with an event \<open>b\<close> exactly when its instant lies strictly between
  the start and the end of \<open>b\<close>, in either order of the two events; so it never
  conflicts with an event it only touches, nor with another zero-duration event.
\<close>

theorem zero_duration_conflict_iff_inside:
  assumes a: "event_time f a ''start'' = Inr s1" "event_time f a ''end'' = Inr e1"
      and b: "event_time f b ''start'' = Inr s2" "event_time f b ''end'' = Inr e2"
      and ref: "aware s1 = aw" "aware e1 = aw" "aware s2 = aw" "aware e2 = aw"
      and zero: "instant s1 = instant e1"
  shows "events_overlap f a b = Inr (instant s2 < instant s1 \<and> instant s1 < instant e2) \<and>
         events_overlap f b a = Inr (instant s2 < instant s1 \<and> instant s1 < instant e2) \<and>
         analyze_schedule_conflicts f [a, b] =
           (if instant s2 < instant s1 \<and> instant s1 < instant e2
            then ConflictsFound [\<lparr>event1 = a, event2 = b, conflict_type = ''time_overlap'',
                                   severity = Some ''high''\<rparr>] 1
            else ConflictsFound [] 0) \<and>
         analyze_schedule_conflicts f [b, a] =
           (if instant s2 < instant s1 \<and> instant s1 < instant e2
            then ConflictsFound [\<lparr>event1 = b, event2 = a, conflict_type = ''time_overlap'',
                                   severity = Some ''high''\<rparr>] 1
            else ConflictsFound [] 0) \<and>
         (instant s1 = instant s2 \<or> instant s1 = instant e2 \<or> instant s2 = instant e2
            \<longrightarrow> analyze_schedule_conflicts f [a, b] = ConflictsFound [] 0)"
proof -
  have ab: "events_overlap f a b = Inr (instant s2 < instant s1 \<and> instant s1 < instant e2)"
    using events_overlap_parsed [OF a b ref] zero by (simp add: conj_commute)
  have ba: "events_overlap f b a = Inr (instant s2 < instant s1 \<and> instant s1 < instant e2)"
    using events_overlap_parsed [OF b a ref(3,4,1,2)] zero by simp
  have pair: "analyze_schedule_conflicts f [a, b] =
           (if instant s2 < instant s1 \<and> instant s1 < instant e2
            then ConflictsFound [\<lparr>event1 = a, event2 = b, conflict_type = ''time_overlap'',
                                   severity = Some ''high''\<rparr>] 1
            else ConflictsFound [] 0)"
    by (rule analyze_pair [OF ab])
  have pair': "analyze_schedule_conflicts f [b, a] =
           (if instant s2 < instant s1 \<and> instant s1 < instant e2
            then ConflictsFound [\<lparr>event1 = b, event2 = a, conflict_type = ''time_overlap'',
                                   severity = Some ''high''\<rparr>] 1
            else ConflictsFound [] 0)"
    by (rule analyze_pair [OF ba])
  have none: "instant s1 = instant s2 \<or> instant s1 = instant e2 \<or> instant s2 = instant e2
            \<longrightarrow> analyze_schedule_conflicts f [a, b] = ConflictsFound [] 0"
    unfolding pair by auto
  show ?thesis
    by (intro conjI) (rule ab ba pair pair' none)+
qed

theorem zero_duration_conflict_iff_inside_witness:
  "event_time iso_examples (ev ''Ping'' ''2025-01-15T10:00:00Z'' ''2025-01-15T10:00:00Z'') ''start''
     = Inr (utc 2025 1 15 10 0) \<and>
   event_time iso_examples (ev ''Ping'' ''2025-01-15T10:00:00Z'' ''2025-01-15T10:00:00Z'') ''end''
     = Inr (utc 2025 1 15 10 0) \<and>
   event_time iso_examples (ev ''Talk'' ''2025-01-15T10:00:00Z'' ''2025-01-15T11:00:00Z'') ''start''
     = Inr (utc 2025 1 15 10 0) \<and>
   event_time iso_examples (ev ''Talk'' ''2025-01-15T10:00:00Z'' ''2025-01-15T11:00:00Z'') ''end''
     = Inr (utc 2025 1 15 11 0) \<and>
   aware (utc 2025 1 15 10 0) = True \<and> aware (utc 2025 1 15 11 0) = True \<and>
   instant (utc 2025 1 15 10 0) = instant (utc 2025 1 15 10 0) \<and>
   analyze_schedule_conflicts iso_examples
     [ev ''Ping'' ''2025-01-15T10:00:00Z'' ''2025-01-15T10:00:00Z'',
      ev ''Talk'' ''2025-01-15T10:00:00Z'' ''2025-01-15T11:00:00Z''] = ConflictsFound [] 0"
proof -
  let ?a = "ev ''Ping'' ''2025-01-15T10:00:00Z'' ''2025-01-15T10:00:00Z''"
  let ?b = "ev ''Talk'' ''2025-01-15T10:00:00Z'' ''2025-01-15T11:00:00Z''"
  have a1: "event_time iso_examples ?a ''start'' = Inr (utc 2025 1 15 10 0)"
    by (simp add: event_time_def ev_def getitem_def bind_exc_def replace_Z_def iso_examples_def)
  have a2: "event_time iso_examples ?a ''end'' = Inr (utc 2025 1 15 10 0)"
    by (simp add: event_time_def ev_def getitem_def bind_exc_def replace_Z_def iso_examples_def)
  have b1: "event_time iso_examples ?b ''start'' = Inr (utc 2025 1 15 10 0)"
    by (simp add: event_time_def ev_def getitem_def bind_exc_def replace_Z_def iso_examples_def)
  have b2: "event_time iso_examples ?b ''end'' = Inr (utc 2025 1 15 11 0)"
    by (simp add: event_time_def ev_def getitem_def bind_exc_def replace_Z_def iso_examples_def)
  have r1: "aware (utc 2025 1 15 10 0) = True" by (simp add: aware_def utc_def)
  have r2: "aware (utc 2025 1 15 11 0) = True" by (simp add: aware_def utc_def)
  have z: "instant (utc 2025 1 15 10 0) = instant (utc 2025 1 15 10 0)" by simp
  from zero_duration_conflict_iff_inside [OF a1 a2 b1 b2 r1 r1 r1 r2 z]
  have "analyze_schedule_conflicts iso_examples [?a, ?b] = ConflictsFound [] 0"
    by blast
  then show ?thesis using a1 a2 b1 b2 r1 r2 by simp
qed




subsection \<open>Sleep estimate\<close>

lemma filter_exc_total:
  "(\<And>x. x \<in> set xs \<Longrightarrow> p x = Inr (P x)) \<Longrightarrow> filter_exc p xs = Inr (filter P xs)"
  by (induction xs) (simp_all add: bind_exc_def)

lemma sleep_loop_total:
  assumes "\<And>e. e \<in> set events \<Longrightarrow> start_hour f e = Inr (H e)"
  shows "for_each (\<lambda>event (evening_events, morning_events).
        bind_exc (start_hour f event) (\<lambda>h.
          if 18 \<le> h then Inr (evening_events @ [event], morning_events)
          else if h \<le> 8 then Inr (evening_events, morning_events @ [event])
          else Inr (evening_events, morning_events)))
       events (ev0, mo0)
     = Inr (ev0 @ filter (\<lambda>e. 18 \<le> H e) events, mo0 @ filter (\<lambda>e. H e \<le> 8) events)"
  using assms by (induction events arbitrary: ev0 mo0) (simp_all add: bind_exc_def)

lemma sleep_classes_total:
  assumes "\<And>e. e \<in> set events \<Longrightarrow> start_hour f e = Inr (H e)"
  shows "sleep_classes f events =
         Inr (filter (\<lambda>e. 18 \<le> H e) events, filter (\<lambda>e. H e \<le> 8) events)"
  unfolding sleep_classes_def using sleep_loop_total [of events f H "[]" "[]"] assms by simp

lemma calculate_sleep_hours_total:
  assumes "\<And>e. e \<in> set events \<Longrightarrow> start_hour f e = Inr (H e)"
  shows "calculate_sleep_hours f (filter (\<lambda>e. 18 \<le> H e) events) (filter (\<lambda>e. H e \<le> 8) events)
         = Inr (spec_sleep_hours (map H events))"
proof -
  have late: "filter_exc (\<lambda>e. bind_exc (start_hour f e) (\<lambda>h. Inr (22 \<le> h)))
                (filter (\<lambda>e. 18 \<le> H e) events)
              = Inr (filter (\<lambda>e. 22 \<le> H e) (filter (\<lambda>e. 18 \<le> H e) events))"
    by (rule filter_exc_total) (simp add: assms bind_exc_def)
  have early: "filter_exc (\<lambda>e. bind_exc (start_hour f e) (\<lambda>h. Inr (h \<le> 7)))
                (filter (\<lambda>e. H e \<le> 8) events)
              = Inr (filter (\<lambda>e. H e \<le> 7) (filter (\<lambda>e. H e \<le> 8) events))"
    by (rule filter_exc_total) (simp add: assms bind_exc_def)
  have l: "filter (\<lambda>e. 22 \<le> H e) (filter (\<lambda>e. 18 \<le> H e) events) = [] \<longleftrightarrow>
           \<not> (\<exists>h \<in> set (map H events). 22 \<le> h)"
    by (auto simp: filter_empty_conv)
  have m: "filter (\<lambda>e. H e \<le> 7) (filter (\<lambda>e. H e \<le> 8) events) = [] \<longleftrightarrow>
           \<not> (\<exists>h \<in> set (map H events). h \<le> 7)"
    by (auto simp: filter_empty_conv)
  show ?thesis
    unfolding calculate_sleep_hours_def late early spec_sleep_hours_def
    using l m by (simp add: bind_exc_def del: filter_filter set_map)
qed

lemma hours_of_events:
  assumes "map (start_hour f) events = map Inr hs"
  shows "\<exists>H. (\<forall>e \<in> set events. start_hour f e = Inr (H e)) \<and> hs = map H events"
proof -
  let ?H = "\<lambda>e. case start_hour f e of Inr h \<Rightarrow> h | Inl x \<Rightarrow> 0"
  have len: "length hs = length events" using assms by (metis length_map)
  have nth: "start_hour f (events ! i) = Inr (hs ! i)" if "i < length events" for i
    using parsed_nth [OF assms that] .
  have a: "\<forall>e \<in> set events. start_hour f e = Inr (?H e)"
  proof
    fix e assume "e \<in> set events"
    then obtain i where "i < length events" "events ! i = e" by (auto simp: in_set_conv_nth)
    with nth [of i] show "start_hour f e = Inr (?H e)" by auto
  qed
  have b: "hs = map ?H events"
    by (rule nth_equalityI) (simp_all add: len nth)
  show ?thesis
    by (rule exI [of _ ?H]) (intro conjI a b)
qed

text \<open>
  Claim C4. For events whose start parses, with start hours \<open>hs\<close>: the evening events are
  those with hour at least 18 and the morning events those with hour at most 8; the
  estimate is 8 when no hour is at least 22 and none is at most 7, 6 when some hour is at
  least 22, and 7 otherwise; \<open>below_target\<close> says whether the estimate is below the
  target; and the two counts are returned.
\<close>

theorem sleep_estimate_three_buckets:
  assumes "map (start_hour f) events = map Inr hs"
  shows "sleep_classes f events =
           Inr (map fst (filter (\<lambda>(e, h). 18 \<le> h) (zip events hs)),
                map fst (filter (\<lambda>(e, h). h \<le> 8) (zip events hs))) \<and>
         assess_sleep_impact f events sleep_target_hours =
           SleepAssessed
             \<lparr>estimated_sleep_hours =
                (if \<not> (\<exists>h \<in> set hs. 22 \<le> h) \<and> \<not> (\<exists>h \<in> set hs. h \<le> 7) then 8
                 else if \<exists>h \<in> set hs. 22 \<le> h then 6
                 else 7),
              below_target =
                ((if \<not> (\<exists>h \<in> set hs. 22 \<le> h) \<and> \<not> (\<exists>h \<in> set hs. h \<le> 7) then 8
                  else if \<exists>h \<in> set hs. 22 \<le> h then 6
                  else 7) < sleep_target_hours),
              evening_events_count = length (filter (\<lambda>h. 18 \<le> h) hs),
              morning_events_count = length (filter (\<lambda>h. h \<le> 8) hs)\<rparr>"
proof -
  from hours_of_events [OF assms] obtain H
    where H: "\<And>e. e \<in> set events \<Longrightarrow> start_hour f e = Inr (H e)" and hs: "hs = map H events"
    by blast
  have zip_ev: "map fst (filter (\<lambda>(e, h). P h) (zip events (map H events))) =
                filter (\<lambda>e. P (H e)) events" for P
    by (induction events) simp_all
  have classes: "sleep_classes f events =
           Inr (map fst (filter (\<lambda>(e, h). 18 \<le> h) (zip events hs)),
                map fst (filter (\<lambda>(e, h). h \<le> 8) (zip events hs)))"
    unfolding hs zip_ev by (rule sleep_classes_total [OF H])
  have count: "length (filter P (map H events)) = length (filter (\<lambda>e. P (H e)) events)" for P
    by (simp add: filter_map comp_def)
  have "assess_sleep_impact f events sleep_target_hours =
           SleepAssessed
             \<lparr>estimated_sleep_hours = spec_sleep_hours hs,
              below_target = (spec_sleep_hours hs < sleep_target_hours),
              evening_events_count = length (filter (\<lambda>h. 18 \<le> h) hs),
              morning_events_count = length (filter (\<lambda>h. h \<le> 8) hs)\<rparr>"
    unfolding hs count
    by (simp add: assess_sleep_impact_def sleep_classes_total [OF H]
        calculate_sleep_hours_total [OF H] bind_exc_def)
  then have "assess_sleep_impact f events sleep_target_hours =
           SleepAssessed
             \<lparr>estimated_sleep_hours =
                (if \<not> (\<exists>h \<in> set hs. 22 \<le> h) \<and> \<not> (\<exists>h \<in> set hs. h \<le> 7) then 8
                 else if \<exists>h \<in> set hs. 22 \<le> h then 6
                 else 7),
              below_target =
                ((if \<not> (\<exists>h \<in> set hs. 22 \<le> h) \<and> \<not> (\<exists>h \<in> set hs. h \<le> 7) then 8
                  else if \<exists>h \<in> set hs. 22 \<le> h then 6
                  else 7) < sleep_target_hours),
              evening_events_count = length (filter (\<lambda>h. 18 \<le> h) hs),
              morning_events_count = length (filter (\<lambda>h. h \<le> 8) hs)\<rparr>"
    by (simp only: spec_sleep_hours_def)
  with classes show ?thesis by (rule conjI)
qed

theorem sleep_estimate_three_buckets_witness:
  "map (start_hour iso_examples)
     [ev ''Standup'' ''2025-01-15T09:00:00Z'' ''2025-01-15T10:00:00Z'',
      ev ''Dinner'' ''2025-01-15T18:00:00Z'' ''2025-01-15T22:30:00Z'',
      ev ''Call'' ''2025-01-15T22:30:00Z'' ''2025-01-15T22:30:00Z'',
      ev ''Run'' ''2025-01-15T07:00:00Z'' ''2025-01-15T08:30:00Z'']
     = map Inr [9, 18, 22, 7] \<and>
   assess_sleep_impact iso_examples
     [ev ''Standup'' ''2025-01-15T09:00:00Z'' ''2025-01-15T10:00:00Z'',
      ev ''Dinner'' ''2025-01-15T18:00:00Z'' ''2025-01-15T22:30:00Z'',
      ev ''Call'' ''2025-01-15T22:30:00Z'' ''2025-01-15T22:30:00Z'',
      ev ''Run'' ''2025-01-15T07:00:00Z'' ''2025-01-15T08:30:00Z''] 7
     = SleepAssessed \<lparr>estimated_sleep_hours = 6, below_target = True,
         evening_events_count = 2, morning_events_count = 1\<rparr>"
proof -
  let ?events = "[ev ''Standup'' ''2025-01-15T09:00:00Z'' ''2025-01-15T10:00:00Z'',
      ev ''Dinner'' ''2025-01-15T18:00:00Z'' ''2025-01-15T22:30:00Z'',
      ev ''Call'' ''2025-01-15T22:30:00Z'' ''2025-01-15T22:30:00Z'',
      ev ''Run'' ''2025-01-15T07:00:00Z'' ''2025-01-15T08:30:00Z'']"
  have h: "map (start_hour iso_examples) ?events = map Inr [9, 18, 22, 7]"
    by (simp add: start_hour_def event_time_def ev_def getitem_def bind_exc_def replace_Z_def
        iso_examples_def utc_def)
  from sleep_estimate_three_buckets [OF h, of 7]
  have "assess_sleep_impact iso_examples ?events 7
     = SleepAssessed \<lparr>estimated_sleep_hours = 6, below_target = True,
         evening_events_count = 2, morning_events_count = 1\<rparr>"
    by simp
  with h show ?thesis by (rule conjI)
qed

subsection \<open>Fallback embedding\<close>

lemma hex_digit_less: "hex_digit c = Some d \<Longrightarrow> d < 16"
  by (auto simp: hex_digit_def split: if_splits)

lemma hex_fold_bound:
  "foldl (\<lambda>v c. 16 * v + (case hex_digit c of None \<Rightarrow> 0 | Some d \<Rightarrow> d)) v s
     < 16 ^ length s * (v + 1)"
proof (induction s arbitrary: v)
  case Nil
  then show ?case by simp
next
  case (Cons c s)
  let ?d = "case hex_digit c of None \<Rightarrow> 0 | Some d \<Rightarrow> d"
  have d: "?d < 16" by (auto split: option.split dest: hex_digit_less)
  have "foldl (\<lambda>v c. 16 * v + (case hex_digit c of None \<Rightarrow> 0 | Some d \<Rightarrow> d)) (16 * v + ?d) s
          < 16 ^ length s * (16 * v + ?d + 1)"
    by (rule Cons.IH)
  also have "\<dots> \<le> 16 ^ length s * (16 * (v + 1))"
    using d by (intro mult_le_mono2) simp
  finally show ?case by (simp add: algebra_simps)
qed

lemma hex_value_bound: "hex_value s < 16 ^ length s"
  using hex_fold_bound [of 0 s] by (simp add: hex_value_def)

lemma int16_digits:
  "s \<noteq> [] \<Longrightarrow> list_all (\<lambda>c. hex_digit c \<noteq> None) s \<Longrightarrow> int16 s = Inr (hex_value s)"
  by (simp add: int16_def)

lemma int16_digest_prefix:
  assumes "length d = 32" "list_all (\<lambda>c. hex_digit c \<noteq> None) d"
  shows "int16 (take 8 d) = Inr (hex_value (take 8 d))"
proof (rule int16_digits)
  show "take 8 d \<noteq> []" using assms(1) by auto
  show "list_all (\<lambda>c. hex_digit c \<noteq> None) (take 8 d)"
    using assms(2) by (auto simp: list_all_iff dest: in_set_takeD)
qed

lemma concat_singletons: "concat (map (\<lambda>i. [h i]) xs) = map h xs"
  by (induction xs) simp_all

lemma fallback_components:
  assumes wf: "\<forall>s. length (md5 s) = 32 \<and> list_all (\<lambda>c. hex_digit c \<noteq> None) (md5 s)"
  shows "generate_fallback_embedding md5 text =
         Inr (map (\<lambda>i. real (hex_value (take 8 (md5 (fallback_source text i @ ''_'' @ str_nat i))))
                          / 2 ^ 31 - 1) [0..<768])"
proof -
  let ?val = "\<lambda>i. real (hex_value (take 8 (md5 (fallback_source text i @ ''_'' @ str_nat i))))
                          / 2 ^ 31 - 1"
  have pre: "int16 (take 8 (md5 s)) = Inr (hex_value (take 8 (md5 s)))" for s
    using wf by (intro int16_digest_prefix) simp_all
  have "generate_fallback_embedding md5 text = Inr ([] @ concat (map (\<lambda>i. [?val i]) [0..<768]))"
    unfolding generate_fallback_embedding_def Let_def
    by (rule for_each_append) (simp add: pre bind_exc_def fallback_source_def)
  then show ?thesis by (simp only: concat_singletons append_Nil)
qed

lemma fallback_component_range:
  assumes "length d = 32"
  shows "- 1 \<le> real (hex_value (take 8 d)) / 2 ^ 31 - 1 \<and>
         real (hex_value (take 8 d)) / 2 ^ 31 - 1 < 1"
proof -
  have "hex_value (take 8 d) < 16 ^ length (take 8 d)" by (rule hex_value_bound)
  then have "hex_value (take 8 d) < 2 ^ 32" using assms by simp
  then have "real (hex_value (take 8 d)) < 2 ^ 32"
    by (metis of_nat_less_iff of_nat_numeral of_nat_power)
  then have "real (hex_value (take 8 d)) / 2 ^ 31 < 2"
    by (simp add: divide_less_eq)
  then show ?thesis by simp
qed




subsection \<open>Proposal builder\<close>

text \<open>
  The builder of the chat module applies the four triggers in their fixed order and
  never returns an empty list; every change is pending, with a rationale, and its
  event is proposed and of the kind of the change.
\<close>

lemma chat_builder_applies_triggers:
  "map change_shape (generate_proposal_changes uuid_hex problem constraints)
     = spec_triggers problem \<and>
   generate_proposal_changes uuid_hex problem constraints \<noteq> [] \<and>
   list_all (\<lambda>c. acceptance c = ''pending'' \<and> rationale c \<noteq> [] \<and>
                   source (proposed_event c) = ''proposed'' \<and>
                   change_type (proposed_event c) = item_type c)
     (generate_proposal_changes uuid_hex problem constraints)"
  by (simp add: generate_proposal_changes_def spec_triggers_def change_shape_def Let_def)

lemma chat_builder_examples:
  "map change_shape (generate_proposal_changes uuid_hex ''my schedule is so hectic'' [])
     = [(''add'', ''Focus Time'', None)]"
  "map change_shape (generate_proposal_changes uuid_hex ''Hectic days and bad sleep'' [])
     = [(''add'', ''Focus Time'', None),
        (''move'', ''Evening Activity'', Some ''existing_evening_event'')]"
  "map change_shape (generate_proposal_changes uuid_hex ''optimize my week'' [])
     = [(''add'', ''Optimization Block'', None)]"
  by (simp_all add: generate_proposal_changes_def change_shape_def Let_def lower_def
      lower_char_def)

text \<open>
  Claim C6 on the assistant module. Its copy of the builder knows two triggers only
  (\<^verbatim>\<open>hectic\<close> or \<^verbatim>\<open>busy\<close>, and \<^verbatim>\<open>sleep\<close>), and has no generic change: for a text
  without these words it returns the empty list, and \<^verbatim>\<open>tired\<close> or \<^verbatim>\<open>meeting\<close> fire
  nothing. The builder of the chat module returns the changes the claim lists.
\<close>

theorem assistant_builder_returns_empty:
  "asst_generate_proposal_changes uuid_hex ''optimize my week'' [] = [] \<and>
   asst_generate_proposal_changes uuid_hex ''I am tired of every meeting'' [] = [] \<and>
   map change_shape (generate_proposal_changes uuid_hex ''optimize my week'' [])
     = [(''add'', ''Optimization Block'', None)] \<and>
   map change_shape (generate_proposal_changes uuid_hex ''I am tired of every meeting'' [])
     = [(''move'', ''Evening Activity'', Some ''existing_evening_event''),
        (''adjust'', ''Meeting Adjustment'', Some ''conflicting_meeting'')]"
  by (simp add: asst_generate_proposal_changes_def generate_proposal_changes_def
      change_shape_def Let_def lower_def lower_char_def)

subsection \<open>Revision chain\<close>

lemma revision_chain_append:
  assumes "revision_chain_ok ps" "revision p = 1" "previous_proposal_id p = None"
  shows "revision_chain_ok (ps @ [p])"
  using assms
  by (auto simp: revision_chain_ok_def list_all_iff list_ex_iff split: option.splits)

lemma appends_first_revision_chain:
  "revision_chain_ok before \<Longrightarrow> appends_first_revision before after \<Longrightarrow>
   revision_chain_ok after"
  by (auto simp: appends_first_revision_def intro: revision_chain_append)

lemma generate_appends:
  "\<exists>p. proposals (fst (generate_schedule_proposal e ctx d cs)) = proposals ctx @ [p] \<and>
       revision p = 1 \<and> previous_proposal_id p = None"
  by (simp add: generate_schedule_proposal_def Let_def)

lemma asst_generate_appends:
  "\<exists>p. proposals (fst (asst_generate_schedule_proposal e ctx d cs)) = proposals ctx @ [p] \<and>
       revision p = 1 \<and> previous_proposal_id p = None"
  by (simp add: asst_generate_schedule_proposal_def Let_def)

lemma execute_calendar_function_proposals:
  "appends_first_revision (proposals ctx) (proposals (fst (execute_calendar_function e ctx fc)))"
proof (cases fc)
  case (GenerateScheduleProposal d cs)
  then show ?thesis
    using generate_appends [of e ctx d cs]
    by (simp add: execute_calendar_function_def appends_first_revision_def)
qed (simp_all add: execute_calendar_function_def appends_first_revision_def
       get_calendar_events_def Let_def)

lemma execute_function_call_proposals:
  "appends_first_revision (proposals ctx) (proposals (fst (execute_function_call e ctx fc)))"
proof (cases fc)
  case (GenerateScheduleProposal d cs)
  then show ?thesis
    using asst_generate_appends [of e ctx d cs]
    by (simp add: execute_function_call_def appends_first_revision_def)
qed (simp_all add: execute_function_call_def appends_first_revision_def
       asst_get_calendar_events_def Let_def)

lemma process_enhanced_response_proposals:
  "appends_first_revision (proposals ctx)
     (proposals (fst (process_enhanced_response e ctx response user_input)))"
proof (cases "first_function_call (response_parts response)")
  case None
  then show ?thesis
    by (simp add: process_enhanced_response_def appends_first_revision_def
        split: sum.split bool.split)
next
  case (Some fc)
  then show ?thesis
    using execute_calendar_function_proposals [of ctx e fc]
    by (simp add: process_enhanced_response_def split_beta)
qed

lemma process_gemini_response_proposals:
  "appends_first_revision (proposals ctx)
     (proposals (fst (process_gemini_response e ctx response user_input follow_up)))"
proof (cases "first_function_call (response_parts response)")
  case None
  then show ?thesis
    by (simp add: process_gemini_response_def appends_first_revision_def)
next
  case (Some fc)
  then show ?thesis
    using execute_function_call_proposals [of ctx e fc]
    by (simp add: process_gemini_response_def split_beta)
qed

lemma chat_turn_context:
  "chat_context (fst (chat_with_calendar_context e st user_input (Inr response))) =
   fst (process_enhanced_response e
         (if problem_statement (chat_context st) = []
          then (chat_context st)\<lparr>problem_statement := user_input\<rparr> else chat_context st)
         response user_input)"
  by (cases "problem_statement (chat_context st) = []")
     (simp_all add: chat_with_calendar_context_def Let_def split_beta split: sum.split)

lemma chat_turn_proposals:
  "appends_first_revision (proposals (chat_context st))
     (proposals (chat_context (fst (chat_with_calendar_context e st user_input outcome))))"
proof (cases outcome)
  case (Inl x)
  then show ?thesis
    by (simp add: chat_with_calendar_context_def appends_first_revision_def Let_def)
next
  case (Inr response)
  let ?ctx = "if problem_statement (chat_context st) = []
              then (chat_context st)\<lparr>problem_statement := user_input\<rparr> else chat_context st"
  have same: "proposals ?ctx = proposals (chat_context st)" by simp
  have "appends_first_revision (proposals ?ctx)
     (proposals (fst (process_enhanced_response e ?ctx response user_input)))"
    by (rule process_enhanced_response_proposals)
  then show ?thesis
    unfolding Inr chat_turn_context same .
qed

lemma assistant_turn_proposals:
  "appends_first_revision (proposals ctx)
     (proposals (fst (process_user_input e ctx user_input outcome follow_up)))"
proof (cases outcome)
  case (Inl x)
  then show ?thesis
    by (simp add: process_user_input_def appends_first_revision_def Let_def)
next
  case (Inr response)
  let ?ctx = "if problem_statement ctx = []
              then ctx\<lparr>problem_statement := user_input\<rparr> else ctx"
  have same: "proposals ?ctx = proposals ctx" by simp
  have "appends_first_revision (proposals ?ctx)
     (proposals (fst (process_gemini_response e ?ctx response user_input follow_up)))"
    by (rule process_gemini_response_proposals)
  then show ?thesis
    using Inr unfolding same
    by (simp add: process_user_input_def Let_def)
qed



subsection \<open>Classification of a response as a clarifying question\<close>

lemma is_clarifying_question_never_true: "is_clarifying_question ctx response \<noteq> Inr True"
  by (simp add: is_clarifying_question_def)


subsection \<open>A turn whose text generation fails\<close>




subsection \<open>Similarity\<close>

lemma similarity_try_mismatch:
  "length a \<noteq> length b \<Longrightarrow> \<exists>e. similarity_try a b = Inl e"
  by (simp add: similarity_try_def np_dot_def)



end
